theory Spec2Isabelle
  imports Complex_Main
begin

section \<open>Data model\<close>

subsection \<open>Clock readings and stored timestamps\<close>

text \<open>
  The code observes two things of a \<^verbatim>\<open>datetime\<close>: its calendar date (\<^verbatim>\<open>.date()\<close>, kept here
  as the day number that \<^verbatim>\<open>date.toordinal()\<close> gives, so that the \<^verbatim>\<open>.days\<close> of a difference of
  two dates is the difference of the numbers) and its POSIX time (\<^verbatim>\<open>.timestamp()\<close>, a
  float, kept as the number it denotes; \<^verbatim>\<open>None\<close> when \<^verbatim>\<open>.timestamp()\<close> raises, as it does
  for a date at the edge of the calendar such as \<^verbatim>\<open>0001-01-01T00:00:00\<close>). Every call of
  \<^verbatim>\<open>datetime.now()\<close> is an argument of the function that makes it.
\<close>

record datetime =
  date_ordinal :: int
  posix :: "real option"

text \<open>
  A timestamp kept in a JSON file is a string. \<^verbatim>\<open>Iso dt\<close> stands for a string that
  \<^verbatim>\<open>datetime.fromisoformat\<close> parses to \<^verbatim>\<open>dt\<close> (what \<^verbatim>\<open>dt.isoformat()\<close> writes), \<^verbatim>\<open>Malformed s\<close> for
  a value on which it raises.
\<close>

datatype isotime = Iso datetime | Malformed string

datatype py_error = KeyError | ValueError | OverflowError

definition isoformat :: "datetime \<Rightarrow> isotime" where
  "isoformat dt = Iso dt"

fun fromisoformat :: "isotime \<Rightarrow> py_error + datetime" where
  "fromisoformat (Iso dt) = Inr dt"
| "fromisoformat (Malformed s) = Inl ValueError"

text \<open>Truth value of a stored string: the empty string is false.\<close>

fun truthy :: "isotime \<Rightarrow> bool" where
  "truthy (Iso dt) = True"
| "truthy (Malformed s) = (s \<noteq> [])"

subsection \<open>Records of the JSON files\<close>

record progress =
  user_id :: int
  overall_score :: int
  completed_modules :: "string list"
  current_modules :: "string list"
  quizzes_completed :: int
  correct_answers :: int
  total_questions :: int
  learning_streak :: int
  last_activity :: "isotime option"
  days_active :: int
  achievements :: "string list"
  recent_topics :: "string list"
  skill_levels :: "string \<rightharpoonup> string"
  learning_goals :: "string list"
  created_at :: isotime
  updated_at :: isotime

text \<open>A stored conversation; \<^verbatim>\<open>timestamp\<close> and \<^verbatim>\<open>ai_response\<close> are keys that may be absent.\<close>

record conversation =
  user_message :: string
  user_name :: string
  timestamp :: "isotime option"
  conv_user_id :: int
  conv_chat_id :: int
  chat_type :: string
  ai_response :: "string option"

record user_data =
  u_user_id :: int
  username :: "string option"
  first_name :: string
  u_chat_id :: int
  registration_date :: isotime
  last_seen :: isotime
  is_known_user :: bool
  role :: string
  display_name :: string
  known_as :: "string option"

text \<open>
  The data directory: one dictionary per file, keyed by the id (the code keys by
  \<^verbatim>\<open>str(id)\<close>, which is one-to-one on integers). Reading and writing the files is taken to
  succeed.
\<close>

record store =
  users_file :: "int \<rightharpoonup> user_data"
  memories_file :: "int \<rightharpoonup> conversation list"
  progress_file :: "int \<rightharpoonup> progress"
  group_memories_file :: "int \<rightharpoonup> conversation list"

section \<open>Strings and slices of Python\<close>

definition lower_char :: "char \<Rightarrow> char" where
  "lower_char c =
     (case map_of (zip ''ABCDEFGHIJKLMNOPQRSTUVWXYZ'' ''abcdefghijklmnopqrstuvwxyz'') c of
        Some d \<Rightarrow> d
      | None \<Rightarrow> c)"

text \<open>\<^verbatim>\<open>str.lower()\<close> on the letters of ASCII (module ids are ASCII).\<close>

definition lower :: "string \<Rightarrow> string" where
  "lower s = map lower_char s"

fun startswith :: "string \<Rightarrow> string \<Rightarrow> bool" where
  "startswith s [] = True"
| "startswith [] (c # cs) = False"
| "startswith (x # xs) (c # cs) = (x = c \<and> startswith xs cs)"

text \<open>\<^verbatim>\<open>sub in s\<close> for strings: \<^verbatim>\<open>sub\<close> occurs in \<^verbatim>\<open>s\<close> as a substring.\<close>

fun str_in :: "string \<Rightarrow> string \<Rightarrow> bool" where
  "str_in sub [] = (sub = [])"
| "str_in sub (x # xs) = (startswith (x # xs) sub \<or> str_in sub xs)"

text \<open>
  The slice \<^verbatim>\<open>xs[i:]\<close>: a negative \<^verbatim>\<open>i\<close> counts from the end, and an index before the start
  of the list is the start.
\<close>

definition slice_from :: "int \<Rightarrow> 'a list \<Rightarrow> 'a list" where
  "slice_from i xs =
     (let n = int (length xs);
          j = (if i < 0 then max 0 (n + i) else min i n)
      in drop (nat j) xs)"

section \<open>DataManager\<close>

definition dm_get_user_progress :: "store \<Rightarrow> int \<Rightarrow> progress option" where
  "dm_get_user_progress s uid = progress_file s uid"

definition save_user_progress :: "store \<Rightarrow> int \<Rightarrow> progress \<Rightarrow> store" where
  "save_user_progress s uid p = s\<lparr>progress_file := (progress_file s)(uid \<mapsto> p)\<rparr>"

definition get_user_memories :: "store \<Rightarrow> int \<Rightarrow> conversation list" where
  "get_user_memories s uid = (case memories_file s uid of None \<Rightarrow> [] | Some ms \<Rightarrow> ms)"

definition get_group_memories :: "store \<Rightarrow> int \<Rightarrow> conversation list" where
  "get_group_memories s cid = (case group_memories_file s cid of None \<Rightarrow> [] | Some ms \<Rightarrow> ms)"

section \<open>ProgressTracker\<close>

definition initialize_user_progress :: "int \<Rightarrow> datetime \<Rightarrow> datetime \<Rightarrow> progress" where
  "initialize_user_progress uid t_created t_updated =
     \<lparr>user_id = uid,
      overall_score = 0,
      completed_modules = [],
      current_modules = [],
      quizzes_completed = 0,
      correct_answers = 0,
      total_questions = 0,
      learning_streak = 0,
      last_activity = None,
      days_active = 0,
      achievements = [],
      recent_topics = [],
      skill_levels = [''crypto'' \<mapsto> ''beginner'', ''stocks'' \<mapsto> ''beginner'',
                      ''trading'' \<mapsto> ''beginner''],
      learning_goals = [],
      created_at = isoformat t_created,
      updated_at = isoformat t_updated\<rparr>"

text \<open>
  \<^verbatim>\<open>get_user_progress\<close>: the stored record, or a new one that is saved first. The two
  clock readings are used only when the record is created.
\<close>

definition get_user_progress :: "store \<Rightarrow> int \<Rightarrow> datetime \<times> datetime \<Rightarrow> progress \<times> store" where
  "get_user_progress s uid t_init =
     (case dm_get_user_progress s uid of
        Some p \<Rightarrow> (p, s)
      | None \<Rightarrow>
          (let p = initialize_user_progress uid (fst t_init) (snd t_init)
           in (p, save_user_progress s uid p)))"

text \<open>One \<^verbatim>\<open>if cond and name not in achievements: achievements.append(name)\<close>.\<close>

definition award :: "bool \<Rightarrow> string \<Rightarrow> string list \<Rightarrow> string list" where
  "award cond name achs = (if cond \<and> name \<notin> set achs then achs @ [name] else achs)"

definition check_achievements :: "progress \<Rightarrow> progress" where
  "check_achievements p =
     (let a0 = achievements p;
          a1 = award (length (completed_modules p) \<ge> 1) ''First Steps'' a0;
          a2 = award (length (completed_modules p) \<ge> 3) ''Knowledge Seeker'' a1;
          a3 = award (quizzes_completed p \<ge> 5) ''Quiz Master'' a2;
          a4 = award (learning_streak p \<ge> 7) ''Consistent Learner'' a3;
          a5 = award (overall_score p \<ge> 80) ''High Achiever'' a4;
          a6 = award (total_questions p > 0 \<and> correct_answers p = total_questions p
                      \<and> total_questions p \<ge> 5) ''Perfect Score'' a5
      in p\<lparr>achievements := a6\<rparr>)"

text \<open>
  One domain of \<^verbatim>\<open>_update_skill_levels\<close>: the two \<^verbatim>\<open>if\<close>s in sequence, the second
  overwriting the first.
\<close>

definition set_level :: "string \<Rightarrow> nat \<Rightarrow> int \<Rightarrow> nat \<Rightarrow> int \<Rightarrow> nat \<Rightarrow> int
    \<Rightarrow> (string \<rightharpoonup> string) \<Rightarrow> (string \<rightharpoonup> string)" where
  "set_level domain n_modules score n_inter s_inter n_adv s_adv levels =
     (let l1 = (if n_modules \<ge> n_inter \<or> score \<ge> s_inter
                then levels(domain \<mapsto> ''intermediate'') else levels);
          l2 = (if n_modules \<ge> n_adv \<or> score \<ge> s_adv
                then l1(domain \<mapsto> ''advanced'') else l1)
      in l2)"

definition crypto_modules :: "string list \<Rightarrow> string list" where
  "crypto_modules completed =
     filter (\<lambda>m. str_in ''crypto'' (lower m) \<or> str_in ''blockchain'' (lower m)) completed"

definition stocks_modules :: "string list \<Rightarrow> string list" where
  "stocks_modules completed =
     filter (\<lambda>m. str_in ''stock'' (lower m) \<or> str_in ''trading'' (lower m)) completed"

definition trading_modules :: "string list \<Rightarrow> string list" where
  "trading_modules completed =
     filter (\<lambda>m. list_ex (\<lambda>term. str_in term (lower m)) [''trading'', ''analysis'', ''risk''])
       completed"

definition update_skill_levels :: "progress \<Rightarrow> progress" where
  "update_skill_levels p =
     (let completed = completed_modules p;
          score = overall_score p;
          l1 = set_level ''crypto'' (length (crypto_modules completed)) score 3 60 5 80
                 (skill_levels p);
          l2 = set_level ''stocks'' (length (stocks_modules completed)) score 3 60 5 80 l1;
          l3 = set_level ''trading'' (length (trading_modules completed)) score 2 50 4 75 l2
      in p\<lparr>skill_levels := l3\<rparr>)"

text \<open>The branch of \<^verbatim>\<open>update_progress\<close> on the action string.\<close>

definition apply_action :: "progress \<Rightarrow> string \<Rightarrow> string \<Rightarrow> int \<Rightarrow> progress" where
  "apply_action p topic action score =
     (if action = ''started'' then
        (if topic \<notin> set (current_modules p)
         then p\<lparr>current_modules := current_modules p @ [topic]\<rparr> else p)
      else if action = ''completed'' then
        (let q1 = (if topic \<notin> set (completed_modules p)
                   then p\<lparr>completed_modules := completed_modules p @ [topic]\<rparr> else p);
             q2 = (if topic \<in> set (current_modules q1)
                   then q1\<lparr>current_modules := remove1 topic (current_modules q1)\<rparr> else q1)
         in q2\<lparr>overall_score := overall_score q2 + 10\<rparr>)
      else if action = ''quiz_completed'' then
        (let q1 = p\<lparr>quizzes_completed := quizzes_completed p + 1,
                     total_questions := total_questions p + 1\<rparr>
         in if score > 0
            then q1\<lparr>correct_answers := correct_answers q1 + score,
                    overall_score := overall_score q1 + score * 5\<rparr>
            else q1)
      else p)"

definition update_recent_topics :: "progress \<Rightarrow> string \<Rightarrow> progress" where
  "update_recent_topics p topic =
     (let p1 = (if topic \<notin> set (recent_topics p)
                then p\<lparr>recent_topics := recent_topics p @ [topic]\<rparr> else p)
      in if length (recent_topics p1) > 10
         then p1\<lparr>recent_topics := slice_from (- 10) (recent_topics p1)\<rparr> else p1)"

text \<open>
  What \<^verbatim>\<open>update_progress\<close> does to the record it has loaded, in the order of the source:
  the time of the update, the action, the recent topics, the cap of the score, the
  achievements, the skill levels.
\<close>

definition update_progress_record :: "progress \<Rightarrow> string \<Rightarrow> string \<Rightarrow> int \<Rightarrow> datetime \<Rightarrow> progress" where
  "update_progress_record p topic action score current_time =
     (let p1 = p\<lparr>updated_at := isoformat current_time\<rparr>;
          p2 = apply_action p1 topic action score;
          p3 = update_recent_topics p2 topic;
          p4 = p3\<lparr>overall_score := min (overall_score p3) 100\<rparr>
      in update_skill_levels (check_achievements p4))"

definition update_progress :: "store \<Rightarrow> int \<Rightarrow> string \<Rightarrow> string \<Rightarrow> int
    \<Rightarrow> datetime \<times> datetime \<Rightarrow> datetime \<Rightarrow> store" where
  "update_progress s uid topic action score t_init current_time =
     (case get_user_progress s uid t_init of
        (p, s1) \<Rightarrow>
          save_user_progress s1 uid (update_progress_record p topic action score current_time))"

definition reset_user_progress :: "store \<Rightarrow> int \<Rightarrow> datetime \<Rightarrow> datetime \<Rightarrow> store" where
  "reset_user_progress s uid t_created t_updated =
     save_user_progress s uid (initialize_user_progress uid t_created t_updated)"

text \<open>
  What \<^verbatim>\<open>update_user_activity\<close> does to the record it has loaded. \<^verbatim>\<open>t_date\<close> is the reading
  whose date is \<^verbatim>\<open>current_date\<close>, \<^verbatim>\<open>t_last\<close> and \<^verbatim>\<open>t_upd\<close> are the readings written to
  \<^verbatim>\<open>last_activity\<close> and \<^verbatim>\<open>updated_at\<close>. A stored \<^verbatim>\<open>last_activity\<close> that does not parse
  leaves \<^verbatim>\<open>last_activity_date\<close> at \<^verbatim>\<open>None\<close>.
\<close>

definition update_user_activity_record :: "progress \<Rightarrow> datetime \<Rightarrow> datetime \<Rightarrow> datetime \<Rightarrow> progress" where
  "update_user_activity_record p t_date t_last t_upd =
     (let current_date = date_ordinal t_date;
          last_activity_date =
            (case last_activity p of
               None \<Rightarrow> None
             | Some ts \<Rightarrow>
                 if truthy ts
                 then (case fromisoformat ts of
                         Inr dt \<Rightarrow> Some (date_ordinal dt)
                       | Inl e \<Rightarrow> None)
                 else None);
          p1 = (if last_activity_date \<noteq> Some current_date then
                  (let q = p\<lparr>days_active := days_active p + 1\<rparr>
                   in case last_activity_date of
                        Some d \<Rightarrow>
                          if current_date - d = 1
                          then q\<lparr>learning_streak := learning_streak q + 1\<rparr>
                          else if current_date - d > 1
                          then q\<lparr>learning_streak := 1\<rparr>
                          else q\<lparr>learning_streak := 1\<rparr>
                      | None \<Rightarrow> q\<lparr>learning_streak := 1\<rparr>)
                else p)
      in p1\<lparr>last_activity := Some (isoformat t_last), updated_at := isoformat t_upd\<rparr>)"

definition update_user_activity :: "store \<Rightarrow> int \<Rightarrow> string \<Rightarrow> datetime \<times> datetime
    \<Rightarrow> datetime \<Rightarrow> datetime \<Rightarrow> datetime \<Rightarrow> store" where
  "update_user_activity s uid message t_init t_date t_last t_upd =
     (case get_user_progress s uid t_init of
        (p, s1) \<Rightarrow>
          save_user_progress s1 uid (update_user_activity_record p t_date t_last t_upd))"

section \<open>Sequences of learning events\<close>

record event =
  ev_topic :: string
  ev_action :: string
  ev_score :: int
  ev_init :: "datetime \<times> datetime"
  ev_time :: datetime

text \<open>The calls of \<^verbatim>\<open>update_progress\<close> for one user, one after the other.\<close>

fun apply_events :: "store \<Rightarrow> int \<Rightarrow> event list \<Rightarrow> store" where
  "apply_events s uid [] = s"
| "apply_events s uid (e # es) =
     apply_events
       (update_progress s uid (ev_topic e) (ev_action e) (ev_score e) (ev_init e) (ev_time e))
       uid es"

section \<open>Conversation memories\<close>

text \<open>The timestamp is added only when the key is absent.\<close>

definition stamp :: "conversation \<Rightarrow> datetime \<Rightarrow> conversation" where
  "stamp conversation_data now =
     (if timestamp conversation_data = None
      then conversation_data\<lparr>timestamp := Some (isoformat now)\<rparr>
      else conversation_data)"

definition store_conversation :: "store \<Rightarrow> int \<Rightarrow> conversation \<Rightarrow> datetime \<Rightarrow> store" where
  "store_conversation s uid conversation_data now =
     (let memories_data = memories_file s;
          user_memories = (case memories_data uid of None \<Rightarrow> [] | Some ms \<Rightarrow> ms);
          appended = user_memories @ [stamp conversation_data now];
          kept = (if length appended > 50 then slice_from (- 50) appended else appended)
      in s\<lparr>memories_file := memories_data(uid \<mapsto> kept)\<rparr>)"

definition store_group_conversation :: "store \<Rightarrow> int \<Rightarrow> conversation \<Rightarrow> datetime \<Rightarrow> store" where
  "store_group_conversation s cid conversation_data now =
     (let group_memories_data = group_memories_file s;
          group_memories = (case group_memories_data cid of None \<Rightarrow> [] | Some ms \<Rightarrow> ms);
          appended = group_memories @ [stamp conversation_data now];
          kept = (if length appended > 100 then slice_from (- 100) appended else appended)
      in s\<lparr>group_memories_file := group_memories_data(cid \<mapsto> kept)\<rparr>)"

text \<open>
  The memories that \<^verbatim>\<open>handle_message\<close> hands to the prompt (its variable
  \<^verbatim>\<open>all_memories\<close>), by the type of the chat.
\<close>

definition all_memories :: "store \<Rightarrow> string \<Rightarrow> int \<Rightarrow> int \<Rightarrow> conversation list" where
  "all_memories s ctype cid uid =
     (if ctype \<in> set [''group'', ''supergroup'']
      then get_group_memories s cid @ slice_from (- 5) (get_user_memories s uid)
      else get_user_memories s uid)"

text \<open>The last \<^verbatim>\<open>n\<close> entries of a ledger, in the ledger's order, as the specification words it.\<close>

definition last_entries :: "nat \<Rightarrow> 'a list \<Rightarrow> 'a list" where
  "last_entries n xs = rev (take n (rev xs))"

subsection \<open>Purging old conversations\<close>







section \<open>Invariants of stored records\<close>

text \<open>Every domain at \<^verbatim>\<open>advanced\<close> meets the threshold that sets it to \<^verbatim>\<open>advanced\<close>.\<close>

definition skill_backed :: "progress \<Rightarrow> bool" where
  "skill_backed p =
     ((skill_levels p ''crypto'' = Some ''advanced'' \<longrightarrow>
         5 \<le> length (crypto_modules (completed_modules p)) \<or> 80 \<le> overall_score p) \<and>
      (skill_levels p ''stocks'' = Some ''advanced'' \<longrightarrow>
         5 \<le> length (stocks_modules (completed_modules p)) \<or> 80 \<le> overall_score p) \<and>
      (skill_levels p ''trading'' = Some ''advanced'' \<longrightarrow>
         4 \<le> length (trading_modules (completed_modules p)) \<or> 75 \<le> overall_score p))"

section \<open>Properties\<close>

subsection \<open>What each phase of an update leaves alone\<close>

lemma check_achievements_fields [simp]:
  "overall_score (check_achievements p) = overall_score p"
  "completed_modules (check_achievements p) = completed_modules p"
  "current_modules (check_achievements p) = current_modules p"
  "quizzes_completed (check_achievements p) = quizzes_completed p"
  "correct_answers (check_achievements p) = correct_answers p"
  "total_questions (check_achievements p) = total_questions p"
  "recent_topics (check_achievements p) = recent_topics p"
  "skill_levels (check_achievements p) = skill_levels p"
  "updated_at (check_achievements p) = updated_at p"
  by (simp_all add: check_achievements_def Let_def)

lemma update_skill_levels_fields [simp]:
  "overall_score (update_skill_levels p) = overall_score p"
  "completed_modules (update_skill_levels p) = completed_modules p"
  "current_modules (update_skill_levels p) = current_modules p"
  "quizzes_completed (update_skill_levels p) = quizzes_completed p"
  "correct_answers (update_skill_levels p) = correct_answers p"
  "total_questions (update_skill_levels p) = total_questions p"
  "recent_topics (update_skill_levels p) = recent_topics p"
  "achievements (update_skill_levels p) = achievements p"
  "updated_at (update_skill_levels p) = updated_at p"
  by (simp_all add: update_skill_levels_def Let_def)

lemma update_recent_topics_fields [simp]:
  "overall_score (update_recent_topics p t) = overall_score p"
  "completed_modules (update_recent_topics p t) = completed_modules p"
  "current_modules (update_recent_topics p t) = current_modules p"
  "quizzes_completed (update_recent_topics p t) = quizzes_completed p"
  "correct_answers (update_recent_topics p t) = correct_answers p"
  "total_questions (update_recent_topics p t) = total_questions p"
  "skill_levels (update_recent_topics p t) = skill_levels p"
  "achievements (update_recent_topics p t) = achievements p"
  "updated_at (update_recent_topics p t) = updated_at p"
  by (simp_all add: update_recent_topics_def Let_def)

subsection \<open>The stored record after an update\<close>

lemma update_progress_stored:
  "progress_file (update_progress s uid topic action score ti now) uid =
     Some (update_progress_record (fst (get_user_progress s uid ti)) topic action score now)"
  by (simp add: update_progress_def save_user_progress_def split: prod.splits)

lemma get_user_progress_stored:
  "progress_file s uid = Some p \<Longrightarrow> get_user_progress s uid ti = (p, s)"
  by (simp add: get_user_progress_def dm_get_user_progress_def)

lemma update_progress_Some:
  "progress_file s uid = Some p \<Longrightarrow>
   progress_file (update_progress s uid topic action score ti now) uid =
     Some (update_progress_record p topic action score now)"
  by (simp add: update_progress_stored get_user_progress_stored)

lemma reset_stored:
  "progress_file (reset_user_progress s uid t1 t2) uid = Some (initialize_user_progress uid t1 t2)"
  by (simp add: reset_user_progress_def save_user_progress_def)

subsection \<open>The score\<close>

lemma apply_action_score_mono:
  "overall_score p \<le> overall_score (apply_action p topic action score)"
  by (simp add: apply_action_def Let_def)

lemma update_progress_record_score:
  "overall_score (update_progress_record p topic action score now) =
     min (overall_score (apply_action p topic action score)) 100"
  by (simp add: update_progress_record_def Let_def apply_action_def)

lemma score_range_step:
  "0 \<le> overall_score p \<Longrightarrow>
   0 \<le> overall_score (update_progress_record p topic action score now) \<and>
   overall_score (update_progress_record p topic action score now) \<le> 100"
  using apply_action_score_mono [of p topic action score]
  by (simp add: update_progress_record_score)

lemma score_range_events:
  "progress_file s uid = Some p \<Longrightarrow> 0 \<le> overall_score p \<Longrightarrow> overall_score p \<le> 100 \<Longrightarrow>
   \<exists>q. progress_file (apply_events s uid evs) uid = Some q
       \<and> 0 \<le> overall_score q \<and> overall_score q \<le> 100"
proof (induction evs arbitrary: s p)
  case Nil
  then show ?case by simp
next
  case (Cons e es)
  let ?q = "update_progress_record p (ev_topic e) (ev_action e) (ev_score e) (ev_time e)"
  have st: "progress_file (update_progress s uid (ev_topic e) (ev_action e) (ev_score e)
              (ev_init e) (ev_time e)) uid = Some ?q"
    using Cons.prems(1) by (rule update_progress_Some)
  have rg: "0 \<le> overall_score ?q \<and> overall_score ?q \<le> 100"
    using Cons.prems(2) by (rule score_range_step)
  show ?case using Cons.IH [OF st] rg by simp
qed

text \<open>
  C1. Start from a store in which the user's record is the zero-value record, as
  \<^verbatim>\<open>reset_user_progress\<close> leaves it (and as \<^verbatim>\<open>get_user_progress\<close> creates it for a user
  without a record). After any sequence of \<^verbatim>\<open>update_progress\<close> calls, with any topics,
  actions and scores, the user has a stored record and its \<^verbatim>\<open>overall_score\<close> is between 0
  and 100. The sequence is arbitrary, so this holds after each of its events.
\<close>

theorem overall_score_in_range:
  "\<exists>p. progress_file (apply_events (reset_user_progress s uid t1 t2) uid evs) uid = Some p
       \<and> 0 \<le> overall_score p \<and> overall_score p \<le> 100"
  by (rule score_range_events [where p = "initialize_user_progress uid t1 t2"])
     (simp_all add: reset_stored, simp_all add: initialize_user_progress_def)

subsection \<open>Skill levels\<close>

lemma set_level_other:
  "d \<noteq> domain \<Longrightarrow> set_level domain n sc ni si na sa levels d = levels d"
  by (simp add: set_level_def Let_def)

lemma set_level_same:
  "set_level d n sc ni si na sa levels d =
     (if na \<le> n \<or> sa \<le> sc then Some ''advanced''
      else if ni \<le> n \<or> si \<le> sc then Some ''intermediate''
      else levels d)"
  by (simp add: set_level_def Let_def)

lemma skill_crypto:
  "skill_levels (update_skill_levels p) ''crypto'' =
     (if 5 \<le> length (crypto_modules (completed_modules p)) \<or> 80 \<le> overall_score p
      then Some ''advanced''
      else if 3 \<le> length (crypto_modules (completed_modules p)) \<or> 60 \<le> overall_score p
      then Some ''intermediate''
      else skill_levels p ''crypto'')"
  by (simp add: update_skill_levels_def Let_def set_level_other set_level_same)

lemma skill_stocks:
  "skill_levels (update_skill_levels p) ''stocks'' =
     (if 5 \<le> length (stocks_modules (completed_modules p)) \<or> 80 \<le> overall_score p
      then Some ''advanced''
      else if 3 \<le> length (stocks_modules (completed_modules p)) \<or> 60 \<le> overall_score p
      then Some ''intermediate''
      else skill_levels p ''stocks'')"
  by (simp add: update_skill_levels_def Let_def set_level_other set_level_same)

lemma skill_trading:
  "skill_levels (update_skill_levels p) ''trading'' =
     (if 4 \<le> length (trading_modules (completed_modules p)) \<or> 75 \<le> overall_score p
      then Some ''advanced''
      else if 2 \<le> length (trading_modules (completed_modules p)) \<or> 50 \<le> overall_score p
      then Some ''intermediate''
      else skill_levels p ''trading'')"
  by (simp add: update_skill_levels_def Let_def set_level_other set_level_same)

lemma apply_action_skill_levels [simp]:
  "skill_levels (apply_action p topic action score) = skill_levels p"
  by (simp add: apply_action_def Let_def)

lemma apply_action_completed:
  "completed_modules (apply_action p topic action score) = completed_modules p \<or>
   completed_modules (apply_action p topic action score) = completed_modules p @ [topic]"
  by (simp add: apply_action_def Let_def)

lemma filter_length_grows:
  "ys = xs \<or> ys = xs @ [x] \<Longrightarrow> length (filter P xs) \<le> length (filter P ys)"
  by auto

lemma modules_grow:
  "length (crypto_modules (completed_modules p))
     \<le> length (crypto_modules (completed_modules (apply_action p topic action score)))"
  "length (stocks_modules (completed_modules p))
     \<le> length (stocks_modules (completed_modules (apply_action p topic action score)))"
  "length (trading_modules (completed_modules p))
     \<le> length (trading_modules (completed_modules (apply_action p topic action score)))"
  unfolding crypto_modules_def stocks_modules_def trading_modules_def
  by (rule filter_length_grows [OF apply_action_completed])+

lemma record_skill:
  "skill_levels (update_progress_record p topic action score now) d =
   skill_levels (update_skill_levels
      ((apply_action p topic action score)\<lparr>overall_score := min (overall_score (apply_action p topic action score)) 100\<rparr>)) d"
  by (simp add: update_progress_record_def Let_def update_skill_levels_def apply_action_def)

lemma record_completed:
  "completed_modules (update_progress_record p topic action score now) =
   completed_modules (apply_action p topic action score)"
  by (simp add: update_progress_record_def Let_def apply_action_def)

lemma record_skill_crypto:
  "skill_levels (update_progress_record p topic action score now) ''crypto'' =
     (let n = length (crypto_modules (completed_modules (apply_action p topic action score)));
          sc = min (overall_score (apply_action p topic action score)) 100
      in if 5 \<le> n \<or> 80 \<le> sc then Some ''advanced''
         else if 3 \<le> n \<or> 60 \<le> sc then Some ''intermediate''
         else skill_levels p ''crypto'')"
  unfolding record_skill skill_crypto by (simp add: Let_def)

lemma record_skill_stocks:
  "skill_levels (update_progress_record p topic action score now) ''stocks'' =
     (let n = length (stocks_modules (completed_modules (apply_action p topic action score)));
          sc = min (overall_score (apply_action p topic action score)) 100
      in if 5 \<le> n \<or> 80 \<le> sc then Some ''advanced''
         else if 3 \<le> n \<or> 60 \<le> sc then Some ''intermediate''
         else skill_levels p ''stocks'')"
  unfolding record_skill skill_stocks by (simp add: Let_def)

lemma record_skill_trading:
  "skill_levels (update_progress_record p topic action score now) ''trading'' =
     (let n = length (trading_modules (completed_modules (apply_action p topic action score)));
          sc = min (overall_score (apply_action p topic action score)) 100
      in if 4 \<le> n \<or> 75 \<le> sc then Some ''advanced''
         else if 2 \<le> n \<or> 50 \<le> sc then Some ''intermediate''
         else skill_levels p ''trading'')"
  unfolding record_skill skill_trading by (simp add: Let_def)

lemma skill_backed_step:
  assumes "skill_backed p"
  shows "skill_backed (update_progress_record p topic action score now)"
  using assms modules_grow [of p topic action score] apply_action_score_mono [of p topic action score]
  unfolding skill_backed_def record_skill_crypto record_skill_stocks record_skill_trading
    record_completed update_progress_record_score Let_def
  by (auto split: if_splits)

lemma advanced_kept_step:
  assumes "skill_backed p" and "d \<in> {''crypto'', ''stocks'', ''trading''}"
    and "skill_levels p d = Some ''advanced''"
  shows "skill_levels (update_progress_record p topic action score now) d = Some ''advanced''"
  using assms modules_grow [of p topic action score] apply_action_score_mono [of p topic action score]
  unfolding skill_backed_def
  by (auto simp: record_skill_crypto record_skill_stocks record_skill_trading Let_def)

lemma skill_backed_events:
  "progress_file s uid = Some p \<Longrightarrow> skill_backed p \<Longrightarrow>
   \<exists>q. progress_file (apply_events s uid evs) uid = Some q \<and> skill_backed q"
proof (induction evs arbitrary: s p)
  case Nil
  then show ?case by simp
next
  case (Cons e es)
  let ?q = "update_progress_record p (ev_topic e) (ev_action e) (ev_score e) (ev_time e)"
  have st: "progress_file (update_progress s uid (ev_topic e) (ev_action e) (ev_score e)
              (ev_init e) (ev_time e)) uid = Some ?q"
    using Cons.prems(1) by (rule update_progress_Some)
  have "skill_backed ?q" using Cons.prems(2) by (rule skill_backed_step)
  from Cons.IH [OF st this] show ?case by simp
qed

lemma skill_backed_init: "skill_backed (initialize_user_progress uid t1 t2)"
  by (simp add: skill_backed_def initialize_user_progress_def)

text \<open>
  C2, as amended. In every record reached from the zero-value record by calls of
  \<^verbatim>\<open>update_progress\<close>, a domain of crypto, stocks and trading that is at \<^verbatim>\<open>advanced\<close> is
  still at \<^verbatim>\<open>advanced\<close> after one more call of \<^verbatim>\<open>update_progress\<close>, whatever its topic,
  action and score: the score and the counts of completed modules only grow, so the
  threshold that set the level still holds.
\<close>

theorem advanced_never_lowered:
  assumes "progress_file (apply_events (reset_user_progress s uid t1 t2) uid evs) uid = Some p"
    and "d \<in> {''crypto'', ''stocks'', ''trading''}"
    and "skill_levels p d = Some ''advanced''"
  shows "\<exists>q. progress_file (update_progress (apply_events (reset_user_progress s uid t1 t2) uid evs)
                uid topic action score ti now) uid = Some q
             \<and> skill_levels q d = Some ''advanced''"
proof -
  obtain q where q: "progress_file (apply_events (reset_user_progress s uid t1 t2) uid evs) uid = Some q"
      and b: "skill_backed q"
    using skill_backed_events [OF reset_stored skill_backed_init] by blast
  from q assms(1) have "q = p" by simp
  with b have "skill_backed p" by simp
  from advanced_kept_step [OF this assms(2,3)] update_progress_Some [OF assms(1)]
  show ?thesis by simp
qed

text \<open>
  C2 as stated fails for a stored record that the events above do not produce: the crypto
  level is \<^verbatim>\<open>advanced\<close>, the score is 60 and no module is completed. One
  \<^verbatim>\<open>update_progress\<close> call with the action \<^verbatim>\<open>started\<close> sets the level to
  \<^verbatim>\<open>intermediate\<close>.
\<close>

theorem advanced_lowered_counterexample:
  "skill_levels
     ((initialize_user_progress 1 \<lparr>date_ordinal = 739000, posix = Some 0\<rparr>
         \<lparr>date_ordinal = 739000, posix = Some 0\<rparr>)
        \<lparr>overall_score := 60,
         skill_levels := [''crypto'' \<mapsto> ''advanced'', ''stocks'' \<mapsto> ''beginner'',
                          ''trading'' \<mapsto> ''beginner'']\<rparr>) ''crypto'' = Some ''advanced''
   \<and> skill_levels
     (the (progress_file
        (update_progress
           \<lparr>users_file = Map.empty, memories_file = Map.empty,
            progress_file =
              [1 \<mapsto> (initialize_user_progress 1 \<lparr>date_ordinal = 739000, posix = Some 0\<rparr>
                         \<lparr>date_ordinal = 739000, posix = Some 0\<rparr>)
                       \<lparr>overall_score := 60,
                        skill_levels := [''crypto'' \<mapsto> ''advanced'', ''stocks'' \<mapsto> ''beginner'',
                                         ''trading'' \<mapsto> ''beginner'']\<rparr>],
            group_memories_file = Map.empty\<rparr>
           1 ''stocks_basics'' ''started'' 0
           (\<lparr>date_ordinal = 739001, posix = Some 86400\<rparr>, \<lparr>date_ordinal = 739001, posix = Some 86400\<rparr>)
           \<lparr>date_ordinal = 739001, posix = Some 86400\<rparr>) 1))
     ''crypto'' = Some ''intermediate''"
  (is "_ \<and> skill_levels (the (progress_file (update_progress ?S 1 ?t ?a 0 ?ti ?now) 1)) ''crypto''
         = _")
proof -
  let ?P = "(initialize_user_progress 1 \<lparr>date_ordinal = 739000, posix = Some 0\<rparr>
                         \<lparr>date_ordinal = 739000, posix = Some 0\<rparr>)
                       \<lparr>overall_score := 60,
                        skill_levels := [''crypto'' \<mapsto> ''advanced'', ''stocks'' \<mapsto> ''beginner'',
                                         ''trading'' \<mapsto> ''beginner'']\<rparr>"
  have "progress_file ?S 1 = Some ?P" by simp
  then have st: "progress_file (update_progress ?S 1 ?t ?a 0 ?ti ?now) 1
      = Some (update_progress_record ?P ?t ?a 0 ?now)"
    by (rule update_progress_Some)
  have ap: "apply_action ?P ?t ?a 0 = ?P\<lparr>current_modules := [?t]\<rparr>"
    by (simp add: apply_action_def initialize_user_progress_def)
  have "skill_levels (update_progress_record ?P ?t ?a 0 ?now) ''crypto'' = Some ''intermediate''"
    unfolding record_skill_crypto ap
    by (simp add: initialize_user_progress_def crypto_modules_def)
  with st show ?thesis by simp
qed

subsection \<open>Modules and counters\<close>

lemma record_counters:
  "current_modules (update_progress_record p topic action score now) =
     current_modules (apply_action p topic action score)"
  "quizzes_completed (update_progress_record p topic action score now) =
     quizzes_completed (apply_action p topic action score)"
  "correct_answers (update_progress_record p topic action score now) =
     correct_answers (apply_action p topic action score)"
  "total_questions (update_progress_record p topic action score now) =
     total_questions (apply_action p topic action score)"
  by (simp_all add: update_progress_record_def Let_def apply_action_def)

lemma apply_events_append:
  "apply_events s uid (xs @ ys) = apply_events (apply_events s uid xs) uid ys"
  by (induction xs arbitrary: s) simp_all

lemma distinct_current_action:
  "distinct (current_modules p) \<Longrightarrow> distinct (current_modules (apply_action p topic action score))"
  by (simp add: apply_action_def Let_def)

lemma distinct_current_events:
  "progress_file s uid = Some p \<Longrightarrow> distinct (current_modules p) \<Longrightarrow>
   \<exists>q. progress_file (apply_events s uid evs) uid = Some q \<and> distinct (current_modules q)"
proof (induction evs arbitrary: s p)
  case Nil
  then show ?case by simp
next
  case (Cons e es)
  let ?q = "update_progress_record p (ev_topic e) (ev_action e) (ev_score e) (ev_time e)"
  have st: "progress_file (update_progress s uid (ev_topic e) (ev_action e) (ev_score e)
              (ev_init e) (ev_time e)) uid = Some ?q"
    using Cons.prems(1) by (rule update_progress_Some)
  have "distinct (current_modules ?q)"
    using Cons.prems(2) by (simp add: record_counters distinct_current_action)
  from Cons.IH [OF st this] show ?case by simp
qed

lemma completed_moves_topic:
  assumes "distinct (current_modules p)"
  shows "topic \<in> set (completed_modules (apply_action p topic ''completed'' score))"
    and "topic \<notin> set (current_modules (apply_action p topic ''completed'' score))"
  using assms by (simp_all add: apply_action_def Let_def)

text \<open>
  C7. Start from the zero-value record and let \<^verbatim>\<open>evs\<close> be any sequence of
  \<^verbatim>\<open>update_progress\<close> calls, in particular any number of \<^verbatim>\<open>started\<close> calls on the topic.
  After one more call with the action \<^verbatim>\<open>completed\<close> on the topic, the topic is in
  \<^verbatim>\<open>completed_modules\<close> and not in \<^verbatim>\<open>current_modules\<close>.
\<close>

theorem completed_after_started:
  "\<exists>q. progress_file
          (apply_events (reset_user_progress s uid t1 t2) uid
             (evs @ [\<lparr>ev_topic = topic, ev_action = ''completed'', ev_score = score,
                      ev_init = ti, ev_time = now\<rparr>])) uid = Some q
       \<and> topic \<in> set (completed_modules q) \<and> topic \<notin> set (current_modules q)"
proof -
  have "distinct (current_modules (initialize_user_progress uid t1 t2))"
    by (simp add: initialize_user_progress_def)
  from distinct_current_events [OF reset_stored this]
  obtain p where p: "progress_file (apply_events (reset_user_progress s uid t1 t2) uid evs) uid = Some p"
    and d: "distinct (current_modules p)" by blast
  show ?thesis
    using update_progress_Some [OF p] completed_moves_topic [OF d]
    by (simp add: apply_events_append record_counters record_completed)
qed

subsection \<open>One quiz with several correct answers\<close>

text \<open>A call whose score is at most 1 keeps the correct answers within the questions.\<close>

lemma answers_bounded_small_score:
  "correct_answers p \<le> total_questions p \<Longrightarrow> score \<le> 1 \<Longrightarrow>
   correct_answers (update_progress_record p topic action score now)
     \<le> total_questions (update_progress_record p topic action score now)"
  by (simp add: record_counters apply_action_def Let_def)

text \<open>
  C3 fails on the code. From the zero-value record, one \<^verbatim>\<open>quiz_completed\<close> call with the
  score 5 adds 5 to \<^verbatim>\<open>correct_answers\<close> and 1 to \<^verbatim>\<open>total_questions\<close>.
\<close>

theorem quiz_score_breaks_answer_bound:
  "correct_answers
     (the (progress_file
        (update_progress
           (reset_user_progress
              \<lparr>users_file = Map.empty, memories_file = Map.empty, progress_file = Map.empty,
               group_memories_file = Map.empty\<rparr>
              1 \<lparr>date_ordinal = 739000, posix = Some 0\<rparr> \<lparr>date_ordinal = 739000, posix = Some 0\<rparr>)
           1 ''crypto_basics'' ''quiz_completed'' 5
           (\<lparr>date_ordinal = 739000, posix = Some 1\<rparr>, \<lparr>date_ordinal = 739000, posix = Some 1\<rparr>)
           \<lparr>date_ordinal = 739000, posix = Some 1\<rparr>) 1)) = 5
   \<and> total_questions
     (the (progress_file
        (update_progress
           (reset_user_progress
              \<lparr>users_file = Map.empty, memories_file = Map.empty, progress_file = Map.empty,
               group_memories_file = Map.empty\<rparr>
              1 \<lparr>date_ordinal = 739000, posix = Some 0\<rparr> \<lparr>date_ordinal = 739000, posix = Some 0\<rparr>)
           1 ''crypto_basics'' ''quiz_completed'' 5
           (\<lparr>date_ordinal = 739000, posix = Some 1\<rparr>, \<lparr>date_ordinal = 739000, posix = Some 1\<rparr>)
           \<lparr>date_ordinal = 739000, posix = Some 1\<rparr>) 1)) = 1"
  by (simp add: update_progress_Some [OF reset_stored] record_counters)
     (simp add: apply_action_def initialize_user_progress_def)

theorem advanced_never_lowered_witness:
  "progress_file
     (apply_events
        (reset_user_progress
           \<lparr>users_file = Map.empty, memories_file = Map.empty, progress_file = Map.empty,
            group_memories_file = Map.empty\<rparr>
           1 \<lparr>date_ordinal = 739000, posix = Some 0\<rparr> \<lparr>date_ordinal = 739000, posix = Some 0\<rparr>)
        1
        [\<lparr>ev_topic = ''crypto_basics'', ev_action = ''quiz_completed'', ev_score = 16,
          ev_init = (\<lparr>date_ordinal = 739000, posix = Some 1\<rparr>, \<lparr>date_ordinal = 739000, posix = Some 1\<rparr>),
          ev_time = \<lparr>date_ordinal = 739000, posix = Some 1\<rparr>\<rparr>]) 1
     = Some (update_progress_record
          (initialize_user_progress 1 \<lparr>date_ordinal = 739000, posix = Some 0\<rparr>
             \<lparr>date_ordinal = 739000, posix = Some 0\<rparr>)
          ''crypto_basics'' ''quiz_completed'' 16 \<lparr>date_ordinal = 739000, posix = Some 1\<rparr>)
   \<and> ''crypto'' \<in> {''crypto'', ''stocks'', ''trading''}
   \<and> skill_levels
        (update_progress_record
          (initialize_user_progress 1 \<lparr>date_ordinal = 739000, posix = Some 0\<rparr>
             \<lparr>date_ordinal = 739000, posix = Some 0\<rparr>)
          ''crypto_basics'' ''quiz_completed'' 16 \<lparr>date_ordinal = 739000, posix = Some 1\<rparr>)
        ''crypto'' = Some ''advanced''
   \<and> (\<exists>q. progress_file
        (update_progress
          (apply_events
           (reset_user_progress
              \<lparr>users_file = Map.empty, memories_file = Map.empty, progress_file = Map.empty,
               group_memories_file = Map.empty\<rparr>
              1 \<lparr>date_ordinal = 739000, posix = Some 0\<rparr> \<lparr>date_ordinal = 739000, posix = Some 0\<rparr>)
           1
           [\<lparr>ev_topic = ''crypto_basics'', ev_action = ''quiz_completed'', ev_score = 16,
             ev_init = (\<lparr>date_ordinal = 739000, posix = Some 1\<rparr>, \<lparr>date_ordinal = 739000, posix = Some 1\<rparr>),
             ev_time = \<lparr>date_ordinal = 739000, posix = Some 1\<rparr>\<rparr>])
          1 ''stocks_basics'' ''started'' 0
          (\<lparr>date_ordinal = 739001, posix = Some 86400\<rparr>, \<lparr>date_ordinal = 739001, posix = Some 86400\<rparr>)
          \<lparr>date_ordinal = 739001, posix = Some 86400\<rparr>) 1 = Some q
      \<and> skill_levels q ''crypto'' = Some ''advanced'')"
  (is "progress_file ?X 1 = Some ?P \<and> ?H2 \<and> ?H3 \<and> ?C")
proof -
  have h1: "progress_file ?X 1 = Some ?P"
    by (simp add: update_progress_Some [OF reset_stored])
  have h2: ?H2 by simp
  have h3: ?H3
    unfolding record_skill_crypto
    by (simp add: apply_action_def initialize_user_progress_def crypto_modules_def)
  from advanced_never_lowered [OF h1 h2 h3] have ?C .
  with h1 h2 h3 show ?thesis by blast
qed

subsection \<open>Slices\<close>

lemma last_entries_drop: "last_entries n xs = drop (length xs - n) xs"
  by (simp add: last_entries_def rev_take)

lemma slice_from_negative:
  assumes "i < 0"
  shows "slice_from i xs = last_entries (nat (- i)) xs"
proof -
  have "nat (max 0 (int (length xs) + i)) = length xs - nat (- i)"
    using assms by arith
  then show ?thesis
    using assms by (simp add: slice_from_def last_entries_drop Let_def)
qed

lemma slice_from_last [simp]:
  "slice_from (- 5) xs = last_entries 5 xs"
  "slice_from (- 10) xs = last_entries 10 xs"
  "slice_from (- 50) xs = last_entries 50 xs"
  "slice_from (- 100) xs = last_entries 100 xs"
  by (simp_all add: slice_from_negative)

lemma last_entries_short: "length xs \<le> n \<Longrightarrow> last_entries n xs = xs"
  by (simp add: last_entries_drop)

lemma length_last_entries: "length (last_entries n xs) = min n (length xs)"
  by (simp add: last_entries_drop)

subsection \<open>An action that is none of the three\<close>

lemma apply_action_other:
  "action \<notin> {''started'', ''completed'', ''quiz_completed''} \<Longrightarrow>
   apply_action p topic action score = p"
  by (simp add: apply_action_def)

lemma update_recent_topics_eq:
  "update_recent_topics p topic =
     p\<lparr>recent_topics :=
         last_entries 10
           (if topic \<in> set (recent_topics p) then recent_topics p else recent_topics p @ [topic])\<rparr>"
  by (simp add: update_recent_topics_def Let_def last_entries_short)

lemma set_award: "set (award cond name achs) = set achs \<union> (if cond then {name} else {})"
  by (auto simp: award_def)

lemma check_achievements_set:
  "set (achievements (check_achievements p)) =
     set (achievements p)
     \<union> (if 1 \<le> length (completed_modules p) then {''First Steps''} else {})
     \<union> (if 3 \<le> length (completed_modules p) then {''Knowledge Seeker''} else {})
     \<union> (if 5 \<le> quizzes_completed p then {''Quiz Master''} else {})
     \<union> (if 7 \<le> learning_streak p then {''Consistent Learner''} else {})
     \<union> (if 80 \<le> overall_score p then {''High Achiever''} else {})
     \<union> (if 0 < total_questions p \<and> correct_answers p = total_questions p
            \<and> 5 \<le> total_questions p then {''Perfect Score''} else {})"
  by (simp add: check_achievements_def Let_def set_award)

lemma check_achievements_more [simp]:
  "learning_streak (check_achievements p) = learning_streak p"
  "days_active (check_achievements p) = days_active p"
  "last_activity (check_achievements p) = last_activity p"
  by (simp_all add: check_achievements_def Let_def)

lemma update_skill_levels_more [simp]:
  "learning_streak (update_skill_levels p) = learning_streak p"
  "days_active (update_skill_levels p) = days_active p"
  "last_activity (update_skill_levels p) = last_activity p"
  by (simp_all add: update_skill_levels_def Let_def)

lemma skill_other_keys:
  "d \<notin> {''crypto'', ''stocks'', ''trading''} \<Longrightarrow>
   skill_levels (update_skill_levels p) d = skill_levels p d"
  by (simp add: update_skill_levels_def Let_def set_level_other)

lemma unknown_action_record:
  assumes "action \<notin> {''started'', ''completed'', ''quiz_completed''}"
  shows "update_progress_record p topic action score now =
     update_skill_levels (check_achievements
       (p\<lparr>updated_at := isoformat now,
          recent_topics :=
            last_entries 10
              (if topic \<in> set (recent_topics p) then recent_topics p
               else recent_topics p @ [topic]),
          overall_score := min (overall_score p) 100\<rparr>))"
  by (simp add: update_progress_record_def Let_def apply_action_other [OF assms]
      update_recent_topics_eq)

lemma unknown_action_achievements:
  assumes "action \<notin> {''started'', ''completed'', ''quiz_completed''}"
  shows "set (achievements (update_progress_record p topic action score now)) =
     set (achievements p)
     \<union> (if 1 \<le> length (completed_modules p) then {''First Steps''} else {})
     \<union> (if 3 \<le> length (completed_modules p) then {''Knowledge Seeker''} else {})
     \<union> (if 5 \<le> quizzes_completed p then {''Quiz Master''} else {})
     \<union> (if 7 \<le> learning_streak p then {''Consistent Learner''} else {})
     \<union> (if 80 \<le> overall_score p then {''High Achiever''} else {})
     \<union> (if 0 < total_questions p \<and> correct_answers p = total_questions p
            \<and> 5 \<le> total_questions p then {''Perfect Score''} else {})"
  unfolding unknown_action_record [OF assms]
  by (simp add: check_achievements_set)

lemma unknown_action_skills:
  assumes "action \<notin> {''started'', ''completed'', ''quiz_completed''}"
  shows "skill_levels (update_progress_record p topic action score now) ''crypto'' =
       (if 5 \<le> length (crypto_modules (completed_modules p)) \<or> 80 \<le> overall_score p
        then Some ''advanced''
        else if 3 \<le> length (crypto_modules (completed_modules p)) \<or> 60 \<le> overall_score p
        then Some ''intermediate''
        else skill_levels p ''crypto'')"
    and "skill_levels (update_progress_record p topic action score now) ''stocks'' =
       (if 5 \<le> length (stocks_modules (completed_modules p)) \<or> 80 \<le> overall_score p
        then Some ''advanced''
        else if 3 \<le> length (stocks_modules (completed_modules p)) \<or> 60 \<le> overall_score p
        then Some ''intermediate''
        else skill_levels p ''stocks'')"
    and "skill_levels (update_progress_record p topic action score now) ''trading'' =
       (if 4 \<le> length (trading_modules (completed_modules p)) \<or> 75 \<le> overall_score p
        then Some ''advanced''
        else if 2 \<le> length (trading_modules (completed_modules p)) \<or> 50 \<le> overall_score p
        then Some ''intermediate''
        else skill_levels p ''trading'')"
  by (simp_all add: record_skill_crypto record_skill_stocks record_skill_trading Let_def
        apply_action_other [OF assms])

lemma unknown_action_fields:
  assumes "action \<notin> {''started'', ''completed'', ''quiz_completed''}"
  shows "overall_score (update_progress_record p topic action score now) = min (overall_score p) 100"
    and "completed_modules (update_progress_record p topic action score now) = completed_modules p"
    and "current_modules (update_progress_record p topic action score now) = current_modules p"
    and "quizzes_completed (update_progress_record p topic action score now) = quizzes_completed p"
    and "correct_answers (update_progress_record p topic action score now) = correct_answers p"
    and "total_questions (update_progress_record p topic action score now) = total_questions p"
    and "learning_streak (update_progress_record p topic action score now) = learning_streak p"
    and "days_active (update_progress_record p topic action score now) = days_active p"
    and "last_activity (update_progress_record p topic action score now) = last_activity p"
    and "updated_at (update_progress_record p topic action score now) = isoformat now"
    and "recent_topics (update_progress_record p topic action score now) =
           last_entries 10
             (if topic \<in> set (recent_topics p) then recent_topics p
              else recent_topics p @ [topic])"
  unfolding unknown_action_record [OF assms] by simp_all

lemma update_progress_other_files:
  "users_file (update_progress s uid topic action score ti now) = users_file s"
  "memories_file (update_progress s uid topic action score ti now) = memories_file s"
  "group_memories_file (update_progress s uid topic action score ti now) = group_memories_file s"
  by (simp_all add: update_progress_def get_user_progress_def save_user_progress_def Let_def
        split: option.splits)

text \<open>
  C10, as amended. Let the action be none of \<^verbatim>\<open>started\<close>, \<^verbatim>\<open>completed\<close> and
  \<^verbatim>\<open>quiz_completed\<close>, and let \<^verbatim>\<open>p\<close> be the record that \<^verbatim>\<open>update_progress\<close> loads (the
  stored one, or the new zero-value one). The call returns a store and saves a record \<^verbatim>\<open>q\<close>
  for the user; the other three files are as before. In \<^verbatim>\<open>q\<close> the module lists, the quiz
  counters, the streak and the activity fields are those of \<^verbatim>\<open>p\<close>; the score is that of
  \<^verbatim>\<open>p\<close> cut to 100, so unchanged when it is at most 100; \<^verbatim>\<open>updated_at\<close> is the time of the
  call; \<^verbatim>\<open>recent_topics\<close> has the topic appended if it was absent and is cut to its last
  10. The achievements are evaluated again: \<^verbatim>\<open>q\<close> has those of \<^verbatim>\<open>p\<close> and each of the six
  whose condition holds. The skill levels are evaluated again: each of the three domains
  is \<^verbatim>\<open>advanced\<close> or \<^verbatim>\<open>intermediate\<close> by its thresholds and otherwise as in \<^verbatim>\<open>p\<close>.
\<close>

theorem unknown_action_only_touches_topics:
  assumes "action \<notin> {''started'', ''completed'', ''quiz_completed''}"
  shows "\<exists>q. progress_file (update_progress s uid topic action score ti now) uid = Some q
     \<and> overall_score q = min (overall_score (fst (get_user_progress s uid ti))) 100
     \<and> (overall_score (fst (get_user_progress s uid ti)) \<le> 100 \<longrightarrow>
          overall_score q = overall_score (fst (get_user_progress s uid ti)))
     \<and> completed_modules q = completed_modules (fst (get_user_progress s uid ti))
     \<and> current_modules q = current_modules (fst (get_user_progress s uid ti))
     \<and> quizzes_completed q = quizzes_completed (fst (get_user_progress s uid ti))
     \<and> correct_answers q = correct_answers (fst (get_user_progress s uid ti))
     \<and> total_questions q = total_questions (fst (get_user_progress s uid ti))
     \<and> learning_streak q = learning_streak (fst (get_user_progress s uid ti))
     \<and> days_active q = days_active (fst (get_user_progress s uid ti))
     \<and> last_activity q = last_activity (fst (get_user_progress s uid ti))
     \<and> updated_at q = isoformat now
     \<and> recent_topics q =
           last_entries 10
             (if topic \<in> set (recent_topics (fst (get_user_progress s uid ti)))
              then recent_topics (fst (get_user_progress s uid ti))
              else recent_topics (fst (get_user_progress s uid ti)) @ [topic])
     \<and> set (achievements q) =
           set (achievements (fst (get_user_progress s uid ti)))
           \<union> (if 1 \<le> length (completed_modules (fst (get_user_progress s uid ti)))
              then {''First Steps''} else {})
           \<union> (if 3 \<le> length (completed_modules (fst (get_user_progress s uid ti)))
              then {''Knowledge Seeker''} else {})
           \<union> (if 5 \<le> quizzes_completed (fst (get_user_progress s uid ti))
              then {''Quiz Master''} else {})
           \<union> (if 7 \<le> learning_streak (fst (get_user_progress s uid ti))
              then {''Consistent Learner''} else {})
           \<union> (if 80 \<le> overall_score (fst (get_user_progress s uid ti))
              then {''High Achiever''} else {})
           \<union> (if 0 < total_questions (fst (get_user_progress s uid ti))
                 \<and> correct_answers (fst (get_user_progress s uid ti))
                     = total_questions (fst (get_user_progress s uid ti))
                 \<and> 5 \<le> total_questions (fst (get_user_progress s uid ti))
              then {''Perfect Score''} else {})
     \<and> skill_levels q ''crypto'' =
          (if 5 \<le> length (crypto_modules (completed_modules (fst (get_user_progress s uid ti))))
              \<or> 80 \<le> overall_score (fst (get_user_progress s uid ti))
           then Some ''advanced''
           else if 3 \<le> length (crypto_modules (completed_modules (fst (get_user_progress s uid ti))))
              \<or> 60 \<le> overall_score (fst (get_user_progress s uid ti))
           then Some ''intermediate''
           else skill_levels (fst (get_user_progress s uid ti)) ''crypto'')
     \<and> skill_levels q ''stocks'' =
          (if 5 \<le> length (stocks_modules (completed_modules (fst (get_user_progress s uid ti))))
              \<or> 80 \<le> overall_score (fst (get_user_progress s uid ti))
           then Some ''advanced''
           else if 3 \<le> length (stocks_modules (completed_modules (fst (get_user_progress s uid ti))))
              \<or> 60 \<le> overall_score (fst (get_user_progress s uid ti))
           then Some ''intermediate''
           else skill_levels (fst (get_user_progress s uid ti)) ''stocks'')
     \<and> skill_levels q ''trading'' =
          (if 4 \<le> length (trading_modules (completed_modules (fst (get_user_progress s uid ti))))
              \<or> 75 \<le> overall_score (fst (get_user_progress s uid ti))
           then Some ''advanced''
           else if 2 \<le> length (trading_modules (completed_modules (fst (get_user_progress s uid ti))))
              \<or> 50 \<le> overall_score (fst (get_user_progress s uid ti))
           then Some ''intermediate''
           else skill_levels (fst (get_user_progress s uid ti)) ''trading'')
     \<and> users_file (update_progress s uid topic action score ti now) = users_file s
     \<and> memories_file (update_progress s uid topic action score ti now) = memories_file s
     \<and> group_memories_file (update_progress s uid topic action score ti now)
         = group_memories_file s"
  unfolding update_progress_stored
  by (simp only: unknown_action_fields [OF assms] unknown_action_achievements [OF assms]
        unknown_action_skills [OF assms] update_progress_other_files simp_thms option.inject
        ex_simps) simp

subsection \<open>Activity\<close>

lemma update_user_activity_stored:
  "progress_file (update_user_activity s uid message ti td tw tu) uid =
     Some (update_user_activity_record (fst (get_user_progress s uid ti)) td tw tu)"
  by (simp add: update_user_activity_def save_user_progress_def split: prod.splits)

lemma update_user_activity_Some:
  "progress_file s uid = Some p \<Longrightarrow>
   progress_file (update_user_activity s uid message ti td tw tu) uid =
     Some (update_user_activity_record p td tw tu)"
  by (simp add: update_user_activity_stored get_user_progress_stored)

lemma activity_last:
  "last_activity (update_user_activity_record p td tw tu) = Some (Iso tw)"
  by (simp add: update_user_activity_record_def Let_def isoformat_def split: option.splits sum.splits)

lemma activity_same_day:
  "last_activity p = Some (Iso dt) \<Longrightarrow> date_ordinal dt = date_ordinal td \<Longrightarrow>
   days_active (update_user_activity_record p td tw tu) = days_active p \<and>
   learning_streak (update_user_activity_record p td tw tu) = learning_streak p"
  by (simp add: update_user_activity_record_def Let_def)

lemma activity_next_day:
  "last_activity p = Some (Iso dt) \<Longrightarrow> date_ordinal td = date_ordinal dt + 1 \<Longrightarrow>
   days_active (update_user_activity_record p td tw tu) = days_active p + 1 \<and>
   learning_streak (update_user_activity_record p td tw tu) = learning_streak p + 1"
  by (simp add: update_user_activity_record_def Let_def)

lemma activity_gap:
  "last_activity p = Some (Iso dt) \<Longrightarrow> date_ordinal dt + 2 \<le> date_ordinal td \<Longrightarrow>
   days_active (update_user_activity_record p td tw tu) = days_active p + 1 \<and>
   learning_streak (update_user_activity_record p td tw tu) = 1"
  by (simp add: update_user_activity_record_def Let_def)

lemma activity_first:
  "last_activity p = None \<Longrightarrow>
   days_active (update_user_activity_record p td tw tu) = days_active p + 1 \<and>
   learning_streak (update_user_activity_record p td tw tu) = 1"
  by (simp add: update_user_activity_record_def Let_def)

text \<open>
  C4. (1) Two calls of \<^verbatim>\<open>update_user_activity\<close> on the same calendar date (the date
  written to \<^verbatim>\<open>last_activity\<close> by the first is the date read by the second): the second
  leaves \<^verbatim>\<open>days_active\<close> and \<^verbatim>\<open>learning_streak\<close> as the first left them. (2) A call on
  the day after the day of \<^verbatim>\<open>last_activity\<close> adds 1 to both. (3) A call two or more
  days after it sets the streak to 1 and adds 1 to \<^verbatim>\<open>days_active\<close>. (4) A call on a
  record without \<^verbatim>\<open>last_activity\<close> sets the streak to 1 and adds 1 to \<^verbatim>\<open>days_active\<close>;
  for a user without a stored record both are 1 afterwards.
\<close>

theorem activity_streak_rules:
  "(date_ordinal tl1 = date_ordinal td2 \<longrightarrow>
      (\<exists>q1 q2.
         progress_file (update_user_activity s uid m1 ti1 td1 tl1 tu1) uid = Some q1
       \<and> progress_file (update_user_activity (update_user_activity s uid m1 ti1 td1 tl1 tu1)
            uid m2 ti2 td2 tl2 tu2) uid = Some q2
       \<and> days_active q2 = days_active q1 \<and> learning_streak q2 = learning_streak q1))
   \<and> (progress_file s uid = Some p \<and> last_activity p = Some (Iso dt)
        \<and> date_ordinal td = date_ordinal dt + 1 \<longrightarrow>
      (\<exists>q. progress_file (update_user_activity s uid m ti td tw tu) uid = Some q
         \<and> learning_streak q = learning_streak p + 1 \<and> days_active q = days_active p + 1))
   \<and> (progress_file s uid = Some p \<and> last_activity p = Some (Iso dt)
        \<and> date_ordinal dt + 2 \<le> date_ordinal td \<longrightarrow>
      (\<exists>q. progress_file (update_user_activity s uid m ti td tw tu) uid = Some q
         \<and> learning_streak q = 1 \<and> days_active q = days_active p + 1))
   \<and> (progress_file s uid = Some p \<and> last_activity p = None \<longrightarrow>
      (\<exists>q. progress_file (update_user_activity s uid m ti td tw tu) uid = Some q
         \<and> learning_streak q = 1 \<and> days_active q = days_active p + 1))
   \<and> (progress_file s uid = None \<longrightarrow>
      (\<exists>q. progress_file (update_user_activity s uid m ti td tw tu) uid = Some q
         \<and> learning_streak q = 1 \<and> days_active q = 1))"
proof (intro conjI impI)
  assume same: "date_ordinal tl1 = date_ordinal td2"
  let ?q1 = "update_user_activity_record (fst (get_user_progress s uid ti1)) td1 tl1 tu1"
  have s1: "progress_file (update_user_activity s uid m1 ti1 td1 tl1 tu1) uid = Some ?q1"
    by (rule update_user_activity_stored)
  have s2: "progress_file (update_user_activity (update_user_activity s uid m1 ti1 td1 tl1 tu1)
            uid m2 ti2 td2 tl2 tu2) uid = Some (update_user_activity_record ?q1 td2 tl2 tu2)"
    using s1 by (rule update_user_activity_Some)
  from activity_same_day [OF activity_last same] s1 s2
  show "\<exists>q1 q2.
         progress_file (update_user_activity s uid m1 ti1 td1 tl1 tu1) uid = Some q1
       \<and> progress_file (update_user_activity (update_user_activity s uid m1 ti1 td1 tl1 tu1)
            uid m2 ti2 td2 tl2 tu2) uid = Some q2
       \<and> days_active q2 = days_active q1 \<and> learning_streak q2 = learning_streak q1"
    by blast
next
  assume "progress_file s uid = Some p \<and> last_activity p = Some (Iso dt)
        \<and> date_ordinal td = date_ordinal dt + 1"
  then show "\<exists>q. progress_file (update_user_activity s uid m ti td tw tu) uid = Some q
         \<and> learning_streak q = learning_streak p + 1 \<and> days_active q = days_active p + 1"
    using activity_next_day [of p dt td tw tu] by (simp add: update_user_activity_Some)
next
  assume "progress_file s uid = Some p \<and> last_activity p = Some (Iso dt)
        \<and> date_ordinal dt + 2 \<le> date_ordinal td"
  then show "\<exists>q. progress_file (update_user_activity s uid m ti td tw tu) uid = Some q
         \<and> learning_streak q = 1 \<and> days_active q = days_active p + 1"
    using activity_gap [of p dt td tw tu] by (simp add: update_user_activity_Some)
next
  assume "progress_file s uid = Some p \<and> last_activity p = None"
  then show "\<exists>q. progress_file (update_user_activity s uid m ti td tw tu) uid = Some q
         \<and> learning_streak q = 1 \<and> days_active q = days_active p + 1"
    using activity_first [of p td tw tu] by (simp add: update_user_activity_Some)
next
  assume "progress_file s uid = None"
  then have "fst (get_user_progress s uid ti) = initialize_user_progress uid (fst ti) (snd ti)"
    by (simp add: get_user_progress_def dm_get_user_progress_def Let_def)
  then show "\<exists>q. progress_file (update_user_activity s uid m ti td tw tu) uid = Some q
         \<and> learning_streak q = 1 \<and> days_active q = 1"
    using activity_first [of "initialize_user_progress uid (fst ti) (snd ti)" td tw tu]
    by (simp add: update_user_activity_stored initialize_user_progress_def)
qed

theorem activity_streak_rules_witness:
  "(\<exists>q1 q2.
       progress_file (update_user_activity
          \<lparr>users_file = Map.empty, memories_file = Map.empty, progress_file = Map.empty,
           group_memories_file = Map.empty\<rparr> 1 ''hello''
          (\<lparr>date_ordinal = 739000, posix = Some 0\<rparr>, \<lparr>date_ordinal = 739000, posix = Some 0\<rparr>)
          \<lparr>date_ordinal = 739000, posix = Some 1\<rparr> \<lparr>date_ordinal = 739000, posix = Some 2\<rparr>
          \<lparr>date_ordinal = 739000, posix = Some 3\<rparr>) 1 = Some q1
     \<and> progress_file (update_user_activity (update_user_activity
          \<lparr>users_file = Map.empty, memories_file = Map.empty, progress_file = Map.empty,
           group_memories_file = Map.empty\<rparr> 1 ''hello''
          (\<lparr>date_ordinal = 739000, posix = Some 0\<rparr>, \<lparr>date_ordinal = 739000, posix = Some 0\<rparr>)
          \<lparr>date_ordinal = 739000, posix = Some 1\<rparr> \<lparr>date_ordinal = 739000, posix = Some 2\<rparr>
          \<lparr>date_ordinal = 739000, posix = Some 3\<rparr>) 1 ''again''
          (\<lparr>date_ordinal = 739000, posix = Some 4\<rparr>, \<lparr>date_ordinal = 739000, posix = Some 4\<rparr>)
          \<lparr>date_ordinal = 739000, posix = Some 5\<rparr> \<lparr>date_ordinal = 739000, posix = Some 6\<rparr>
          \<lparr>date_ordinal = 739000, posix = Some 7\<rparr>) 1 = Some q2
     \<and> days_active q2 = days_active q1 \<and> learning_streak q2 = learning_streak q1)
   \<and> (\<exists>q. progress_file (update_user_activity
          \<lparr>users_file = Map.empty, memories_file = Map.empty,
           progress_file =
             [1 \<mapsto> (initialize_user_progress 1 \<lparr>date_ordinal = 739000, posix = Some 0\<rparr>
                        \<lparr>date_ordinal = 739000, posix = Some 0\<rparr>)
                      \<lparr>learning_streak := 3,
                       last_activity := Some (Iso \<lparr>date_ordinal = 739000, posix = Some 0\<rparr>),
                       days_active := 5\<rparr>],
           group_memories_file = Map.empty\<rparr> 1 ''hello''
          (\<lparr>date_ordinal = 739001, posix = Some 0\<rparr>, \<lparr>date_ordinal = 739001, posix = Some 0\<rparr>)
          \<lparr>date_ordinal = 739001, posix = Some 1\<rparr> \<lparr>date_ordinal = 739001, posix = Some 2\<rparr>
          \<lparr>date_ordinal = 739001, posix = Some 3\<rparr>) 1 = Some q
        \<and> learning_streak q = 4 \<and> days_active q = 6)
   \<and> (\<exists>q. progress_file (update_user_activity
          \<lparr>users_file = Map.empty, memories_file = Map.empty,
           progress_file =
             [1 \<mapsto> (initialize_user_progress 1 \<lparr>date_ordinal = 739000, posix = Some 0\<rparr>
                        \<lparr>date_ordinal = 739000, posix = Some 0\<rparr>)
                      \<lparr>learning_streak := 3,
                       last_activity := Some (Iso \<lparr>date_ordinal = 739000, posix = Some 0\<rparr>),
                       days_active := 5\<rparr>],
           group_memories_file = Map.empty\<rparr> 1 ''hello''
          (\<lparr>date_ordinal = 739003, posix = Some 0\<rparr>, \<lparr>date_ordinal = 739003, posix = Some 0\<rparr>)
          \<lparr>date_ordinal = 739003, posix = Some 1\<rparr> \<lparr>date_ordinal = 739003, posix = Some 2\<rparr>
          \<lparr>date_ordinal = 739003, posix = Some 3\<rparr>) 1 = Some q
        \<and> learning_streak q = 1 \<and> days_active q = 6)
   \<and> (\<exists>q. progress_file (update_user_activity
          \<lparr>users_file = Map.empty, memories_file = Map.empty,
           progress_file =
             [1 \<mapsto> initialize_user_progress 1 \<lparr>date_ordinal = 739000, posix = Some 0\<rparr>
                        \<lparr>date_ordinal = 739000, posix = Some 0\<rparr>],
           group_memories_file = Map.empty\<rparr> 1 ''hello''
          (\<lparr>date_ordinal = 739003, posix = Some 0\<rparr>, \<lparr>date_ordinal = 739003, posix = Some 0\<rparr>)
          \<lparr>date_ordinal = 739003, posix = Some 1\<rparr> \<lparr>date_ordinal = 739003, posix = Some 2\<rparr>
          \<lparr>date_ordinal = 739003, posix = Some 3\<rparr>) 1 = Some q
        \<and> learning_streak q = 1 \<and> days_active q = 1)
   \<and> (\<exists>q. progress_file (update_user_activity
          \<lparr>users_file = Map.empty, memories_file = Map.empty, progress_file = Map.empty,
           group_memories_file = Map.empty\<rparr> 1 ''hello''
          (\<lparr>date_ordinal = 739003, posix = Some 0\<rparr>, \<lparr>date_ordinal = 739003, posix = Some 0\<rparr>)
          \<lparr>date_ordinal = 739003, posix = Some 1\<rparr> \<lparr>date_ordinal = 739003, posix = Some 2\<rparr>
          \<lparr>date_ordinal = 739003, posix = Some 3\<rparr>) 1 = Some q
        \<and> learning_streak q = 1 \<and> days_active q = 1)"
  (is "?A \<and> ?B \<and> ?C \<and> ?D \<and> ?E")
proof -
  let ?P = "(initialize_user_progress 1 \<lparr>date_ordinal = 739000, posix = Some 0\<rparr>
                        \<lparr>date_ordinal = 739000, posix = Some 0\<rparr>)
                      \<lparr>learning_streak := 3,
                       last_activity := Some (Iso \<lparr>date_ordinal = 739000, posix = Some 0\<rparr>),
                       days_active := 5\<rparr>"
  let ?SP = "\<lparr>users_file = Map.empty, memories_file = Map.empty,
           progress_file = [1 \<mapsto> ?P], group_memories_file = Map.empty\<rparr>"
  let ?I = "initialize_user_progress 1 \<lparr>date_ordinal = 739000, posix = Some 0\<rparr>
                        \<lparr>date_ordinal = 739000, posix = Some 0\<rparr>"
  let ?SI = "\<lparr>users_file = Map.empty, memories_file = Map.empty,
           progress_file = [1 \<mapsto> ?I], group_memories_file = Map.empty\<rparr>"
  have a: ?A
    using activity_streak_rules [THEN conjunct1, rule_format,
        of "\<lparr>date_ordinal = 739000, posix = Some 2\<rparr>" "\<lparr>date_ordinal = 739000, posix = Some 5\<rparr>"]
    by simp
  have pP: "progress_file ?SP 1 = Some ?P" by simp
  have lP: "last_activity ?P = Some (Iso \<lparr>date_ordinal = 739000, posix = Some 0\<rparr>)" by simp
  have b: ?B
    using activity_streak_rules [THEN conjunct2, THEN conjunct1, rule_format,
        of ?SP 1 ?P "\<lparr>date_ordinal = 739000, posix = Some 0\<rparr>"
           "\<lparr>date_ordinal = 739001, posix = Some 1\<rparr>"] pP lP
    by (simp add: initialize_user_progress_def)
  have c: ?C
    using activity_streak_rules [THEN conjunct2, THEN conjunct2, THEN conjunct1, rule_format,
        of ?SP 1 ?P "\<lparr>date_ordinal = 739000, posix = Some 0\<rparr>"
           "\<lparr>date_ordinal = 739003, posix = Some 1\<rparr>"] pP lP
    by (simp add: initialize_user_progress_def)
  have pI: "progress_file ?SI 1 = Some ?I" by simp
  have lI: "last_activity ?I = None" by (simp add: initialize_user_progress_def)
  have d: ?D
    using activity_streak_rules [THEN conjunct2, THEN conjunct2, THEN conjunct2,
        THEN conjunct1, rule_format, of ?SI 1 ?I] pI lI
    by (simp add: initialize_user_progress_def)
  have e: ?E
    using activity_streak_rules [THEN conjunct2, THEN conjunct2, THEN conjunct2,
        THEN conjunct2, rule_format,
        of "\<lparr>users_file = Map.empty, memories_file = Map.empty, progress_file = Map.empty,
           group_memories_file = Map.empty\<rparr>" 1]
    by simp
  from a b c d e show ?thesis by blast
qed

subsection \<open>Reset\<close>

text \<open>
  C9. \<^verbatim>\<open>reset_user_progress\<close> stores the zero-value record for the user: score 0, no
  achievements, no completed or current modules, every skill at \<^verbatim>\<open>beginner\<close>. The user
  memories, the group memories and the user data are as before.
\<close>

theorem reset_replaces_progress_only:
  "progress_file (reset_user_progress s uid t1 t2) uid = Some (initialize_user_progress uid t1 t2)
   \<and> overall_score (initialize_user_progress uid t1 t2) = 0
   \<and> achievements (initialize_user_progress uid t1 t2) = []
   \<and> completed_modules (initialize_user_progress uid t1 t2) = []
   \<and> current_modules (initialize_user_progress uid t1 t2) = []
   \<and> skill_levels (initialize_user_progress uid t1 t2) ''crypto'' = Some ''beginner''
   \<and> skill_levels (initialize_user_progress uid t1 t2) ''stocks'' = Some ''beginner''
   \<and> skill_levels (initialize_user_progress uid t1 t2) ''trading'' = Some ''beginner''
   \<and> memories_file (reset_user_progress s uid t1 t2) = memories_file s
   \<and> group_memories_file (reset_user_progress s uid t1 t2) = group_memories_file s
   \<and> users_file (reset_user_progress s uid t1 t2) = users_file s"
  by (simp add: reset_user_progress_def save_user_progress_def initialize_user_progress_def)

subsection \<open>Ledgers\<close>

lemma last_entries_full:
  "length xs = n \<Longrightarrow> 0 < n \<Longrightarrow> last_entries n (xs @ [x]) = tl xs @ [x]"
  by (cases xs) (simp_all add: last_entries_drop)

lemma store_conversation_ledger:
  "get_user_memories (store_conversation s uid c now) uid =
     last_entries 50 (get_user_memories s uid @ [stamp c now])"
  by (simp add: store_conversation_def get_user_memories_def Let_def last_entries_short
      split: option.splits)

lemma store_group_conversation_ledger:
  "get_group_memories (store_group_conversation s cid c now) cid =
     last_entries 100 (get_group_memories s cid @ [stamp c now])"
  by (simp add: store_group_conversation_def get_group_memories_def Let_def last_entries_short
      split: option.splits)

text \<open>
  C5. After \<^verbatim>\<open>store_conversation\<close> the user's ledger is the last 50 entries of the old
  ledger with the new turn appended, so it has at most 50 entries; when the old ledger had
  exactly 50, the new one is the old one without its first entry, followed by the new
  turn. The same holds for \<^verbatim>\<open>store_group_conversation\<close> with 100. The cut is part of the
  store operation itself.
\<close>

theorem ledgers_capped:
  "length (get_user_memories (store_conversation s uid c now) uid) \<le> 50
   \<and> get_user_memories (store_conversation s uid c now) uid
       = last_entries 50 (get_user_memories s uid @ [stamp c now])
   \<and> (length (get_user_memories s uid) = 50 \<longrightarrow>
        get_user_memories (store_conversation s uid c now) uid
          = tl (get_user_memories s uid) @ [stamp c now]
        \<and> length (get_user_memories (store_conversation s uid c now) uid) = 50)
   \<and> length (get_group_memories (store_group_conversation s cid c now) cid) \<le> 100
   \<and> get_group_memories (store_group_conversation s cid c now) cid
       = last_entries 100 (get_group_memories s cid @ [stamp c now])
   \<and> (length (get_group_memories s cid) = 100 \<longrightarrow>
        get_group_memories (store_group_conversation s cid c now) cid
          = tl (get_group_memories s cid) @ [stamp c now]
        \<and> length (get_group_memories (store_group_conversation s cid c now) cid) = 100)"
  unfolding store_conversation_ledger store_group_conversation_ledger
  by (auto simp: length_last_entries last_entries_full)

text \<open>
  C6. In a group or supergroup chat the memories handed to the prompt are the whole group
  ledger followed by the last 5 entries of the user's ledger, in that order; that tail
  has at most 5 entries. In any other chat, a private one in particular, they are the
  user's ledger.
\<close>

theorem group_context_order:
  "(ctype = ''group'' \<or> ctype = ''supergroup'' \<longrightarrow>
      all_memories s ctype cid uid
        = get_group_memories s cid @ last_entries 5 (get_user_memories s uid)
      \<and> length (last_entries 5 (get_user_memories s uid)) \<le> 5
      \<and> length (last_entries 5 (get_user_memories s uid))
          = min 5 (length (get_user_memories s uid)))
   \<and> (ctype = ''private'' \<longrightarrow> all_memories s ctype cid uid = get_user_memories s uid)"
  by (auto simp: all_memories_def length_last_entries)

theorem ledgers_capped_witness:
  "length (get_user_memories
      \<lparr>users_file = Map.empty,
       memories_file = [1 \<mapsto> replicate 50
          \<lparr>user_message = ''old'', user_name = ''Ann'',
           timestamp = Some (Iso \<lparr>date_ordinal = 739000, posix = Some 0\<rparr>),
           conv_user_id = 1, conv_chat_id = 7, chat_type = ''group'', ai_response = None\<rparr>],
       progress_file = Map.empty,
       group_memories_file = [7 \<mapsto> replicate 100
          \<lparr>user_message = ''old'', user_name = ''Ann'',
           timestamp = Some (Iso \<lparr>date_ordinal = 739000, posix = Some 0\<rparr>),
           conv_user_id = 1, conv_chat_id = 7, chat_type = ''group'', ai_response = None\<rparr>]\<rparr> 1) = 50
   \<and> get_user_memories (store_conversation
      \<lparr>users_file = Map.empty,
       memories_file = [1 \<mapsto> replicate 50
          \<lparr>user_message = ''old'', user_name = ''Ann'',
           timestamp = Some (Iso \<lparr>date_ordinal = 739000, posix = Some 0\<rparr>),
           conv_user_id = 1, conv_chat_id = 7, chat_type = ''group'', ai_response = None\<rparr>],
       progress_file = Map.empty,
       group_memories_file = [7 \<mapsto> replicate 100
          \<lparr>user_message = ''old'', user_name = ''Ann'',
           timestamp = Some (Iso \<lparr>date_ordinal = 739000, posix = Some 0\<rparr>),
           conv_user_id = 1, conv_chat_id = 7, chat_type = ''group'', ai_response = None\<rparr>]\<rparr> 1
      \<lparr>user_message = ''new'', user_name = ''Ann'', timestamp = None,
       conv_user_id = 1, conv_chat_id = 7, chat_type = ''group'', ai_response = Some ''ok''\<rparr>
      \<lparr>date_ordinal = 739001, posix = Some 86400\<rparr>) 1
     = replicate 49
          \<lparr>user_message = ''old'', user_name = ''Ann'',
           timestamp = Some (Iso \<lparr>date_ordinal = 739000, posix = Some 0\<rparr>),
           conv_user_id = 1, conv_chat_id = 7, chat_type = ''group'', ai_response = None\<rparr>
       @ [\<lparr>user_message = ''new'', user_name = ''Ann'',
           timestamp = Some (Iso \<lparr>date_ordinal = 739001, posix = Some 86400\<rparr>),
           conv_user_id = 1, conv_chat_id = 7, chat_type = ''group'', ai_response = Some ''ok''\<rparr>]
   \<and> length (get_group_memories
      \<lparr>users_file = Map.empty,
       memories_file = [1 \<mapsto> replicate 50
          \<lparr>user_message = ''old'', user_name = ''Ann'',
           timestamp = Some (Iso \<lparr>date_ordinal = 739000, posix = Some 0\<rparr>),
           conv_user_id = 1, conv_chat_id = 7, chat_type = ''group'', ai_response = None\<rparr>],
       progress_file = Map.empty,
       group_memories_file = [7 \<mapsto> replicate 100
          \<lparr>user_message = ''old'', user_name = ''Ann'',
           timestamp = Some (Iso \<lparr>date_ordinal = 739000, posix = Some 0\<rparr>),
           conv_user_id = 1, conv_chat_id = 7, chat_type = ''group'', ai_response = None\<rparr>]\<rparr> 7) = 100
   \<and> get_group_memories (store_group_conversation
      \<lparr>users_file = Map.empty,
       memories_file = [1 \<mapsto> replicate 50
          \<lparr>user_message = ''old'', user_name = ''Ann'',
           timestamp = Some (Iso \<lparr>date_ordinal = 739000, posix = Some 0\<rparr>),
           conv_user_id = 1, conv_chat_id = 7, chat_type = ''group'', ai_response = None\<rparr>],
       progress_file = Map.empty,
       group_memories_file = [7 \<mapsto> replicate 100
          \<lparr>user_message = ''old'', user_name = ''Ann'',
           timestamp = Some (Iso \<lparr>date_ordinal = 739000, posix = Some 0\<rparr>),
           conv_user_id = 1, conv_chat_id = 7, chat_type = ''group'', ai_response = None\<rparr>]\<rparr> 7
      \<lparr>user_message = ''new'', user_name = ''Ann'', timestamp = None,
       conv_user_id = 1, conv_chat_id = 7, chat_type = ''group'', ai_response = Some ''ok''\<rparr>
      \<lparr>date_ordinal = 739001, posix = Some 86400\<rparr>) 7
     = replicate 99
          \<lparr>user_message = ''old'', user_name = ''Ann'',
           timestamp = Some (Iso \<lparr>date_ordinal = 739000, posix = Some 0\<rparr>),
           conv_user_id = 1, conv_chat_id = 7, chat_type = ''group'', ai_response = None\<rparr>
       @ [\<lparr>user_message = ''new'', user_name = ''Ann'',
           timestamp = Some (Iso \<lparr>date_ordinal = 739001, posix = Some 86400\<rparr>),
           conv_user_id = 1, conv_chat_id = 7, chat_type = ''group'', ai_response = Some ''ok''\<rparr>]"
  (is "length (get_user_memories ?S 1) = 50
       \<and> get_user_memories (store_conversation ?S 1 ?C ?N) 1 = ?U
       \<and> length (get_group_memories ?S 7) = 100
       \<and> get_group_memories (store_group_conversation ?S 7 ?C ?N) 7 = ?G")
proof -
  have u: "get_user_memories ?S 1 = replicate 50
          \<lparr>user_message = ''old'', user_name = ''Ann'',
           timestamp = Some (Iso \<lparr>date_ordinal = 739000, posix = Some 0\<rparr>),
           conv_user_id = 1, conv_chat_id = 7, chat_type = ''group'', ai_response = None\<rparr>"
    by (simp add: get_user_memories_def)
  have g: "get_group_memories ?S 7 = replicate 100
          \<lparr>user_message = ''old'', user_name = ''Ann'',
           timestamp = Some (Iso \<lparr>date_ordinal = 739000, posix = Some 0\<rparr>),
           conv_user_id = 1, conv_chat_id = 7, chat_type = ''group'', ai_response = None\<rparr>"
    by (simp add: get_group_memories_def)
  have h1: "length (get_user_memories ?S 1) = 50" unfolding u by simp
  have h2: "length (get_group_memories ?S 7) = 100" unfolding g by simp
  have st: "stamp ?C ?N = ?C\<lparr>timestamp := Some (Iso ?N)\<rparr>"
    by (simp add: stamp_def isoformat_def)
  from ledgers_capped [of ?S 1 ?C ?N 7] h1 h2
  have "get_user_memories (store_conversation ?S 1 ?C ?N) 1
          = tl (get_user_memories ?S 1) @ [stamp ?C ?N]"
    and "get_group_memories (store_group_conversation ?S 7 ?C ?N) 7
          = tl (get_group_memories ?S 7) @ [stamp ?C ?N]"
    by blast+
  then have "get_user_memories (store_conversation ?S 1 ?C ?N) 1 = ?U"
    and "get_group_memories (store_group_conversation ?S 7 ?C ?N) 7 = ?G"
    unfolding u g st by simp_all
  with h1 h2 show ?thesis by blast
qed

theorem group_context_order_witness:
  "all_memories
      \<lparr>users_file = Map.empty,
       memories_file = [1 \<mapsto> map (\<lambda>m.
          \<lparr>user_message = m, user_name = ''Ann'', timestamp = None,
           conv_user_id = 1, conv_chat_id = 1, chat_type = ''private'', ai_response = None\<rparr>)
          [''a'', ''b'', ''c'', ''d'', ''e'', ''f'']],
       progress_file = Map.empty,
       group_memories_file = [7 \<mapsto> map (\<lambda>m.
          \<lparr>user_message = m, user_name = ''Bob'', timestamp = None,
           conv_user_id = 2, conv_chat_id = 7, chat_type = ''group'', ai_response = None\<rparr>)
          [''x'', ''y'']]\<rparr> ''group'' 7 1
     = map (\<lambda>m.
          \<lparr>user_message = m, user_name = ''Bob'', timestamp = None,
           conv_user_id = 2, conv_chat_id = 7, chat_type = ''group'', ai_response = None\<rparr>)
          [''x'', ''y'']
       @ map (\<lambda>m.
          \<lparr>user_message = m, user_name = ''Ann'', timestamp = None,
           conv_user_id = 1, conv_chat_id = 1, chat_type = ''private'', ai_response = None\<rparr>)
          [''b'', ''c'', ''d'', ''e'', ''f'']
   \<and> all_memories
      \<lparr>users_file = Map.empty,
       memories_file = [1 \<mapsto> map (\<lambda>m.
          \<lparr>user_message = m, user_name = ''Ann'', timestamp = None,
           conv_user_id = 1, conv_chat_id = 1, chat_type = ''private'', ai_response = None\<rparr>)
          [''a'', ''b'', ''c'', ''d'', ''e'', ''f'']],
       progress_file = Map.empty,
       group_memories_file = [7 \<mapsto> map (\<lambda>m.
          \<lparr>user_message = m, user_name = ''Bob'', timestamp = None,
           conv_user_id = 2, conv_chat_id = 7, chat_type = ''group'', ai_response = None\<rparr>)
          [''x'', ''y'']]\<rparr> ''private'' 1 1
     = map (\<lambda>m.
          \<lparr>user_message = m, user_name = ''Ann'', timestamp = None,
           conv_user_id = 1, conv_chat_id = 1, chat_type = ''private'', ai_response = None\<rparr>)
          [''a'', ''b'', ''c'', ''d'', ''e'', ''f'']"
  (is "all_memories ?S ''group'' 7 1 = ?G @ ?U5 \<and> all_memories ?S ''private'' 1 1 = ?U")
proof -
  have u: "get_user_memories ?S 1 = ?U" by (simp add: get_user_memories_def)
  have g: "get_group_memories ?S 7 = ?G" by (simp add: get_group_memories_def)
  have l: "last_entries 5 ?U = ?U5" by (simp add: last_entries_def)
  from group_context_order [of "''group''" ?S 7 1]
  have a: "all_memories ?S ''group'' 7 1 = ?G @ ?U5" unfolding u g l by simp
  from group_context_order [of "''private''" ?S 1 1]
  have b: "all_memories ?S ''private'' 1 1 = ?U" unfolding u by simp
  from a b show ?thesis by blast
qed

text \<open>
  C10 as stated fails for a stored record whose score is above 100: the last step of
  \<^verbatim>\<open>update_progress\<close> cuts the score to 100 for every action.
\<close>

theorem unknown_action_caps_score_counterexample:
  "overall_score
     ((initialize_user_progress 1 \<lparr>date_ordinal = 739000, posix = Some 0\<rparr>
         \<lparr>date_ordinal = 739000, posix = Some 0\<rparr>)\<lparr>overall_score := 150\<rparr>) = 150
   \<and> overall_score
     (the (progress_file
        (update_progress
           \<lparr>users_file = Map.empty, memories_file = Map.empty,
            progress_file =
              [1 \<mapsto> (initialize_user_progress 1 \<lparr>date_ordinal = 739000, posix = Some 0\<rparr>
                         \<lparr>date_ordinal = 739000, posix = Some 0\<rparr>)\<lparr>overall_score := 150\<rparr>],
            group_memories_file = Map.empty\<rparr>
           1 ''crypto_basics'' ''viewed'' 0
           (\<lparr>date_ordinal = 739001, posix = Some 86400\<rparr>,
            \<lparr>date_ordinal = 739001, posix = Some 86400\<rparr>)
           \<lparr>date_ordinal = 739001, posix = Some 86400\<rparr>) 1)) = 100"
  (is "_ \<and> overall_score (the (progress_file (update_progress ?S 1 ?t ?a 0 ?ti ?now) 1)) = _")
proof -
  let ?P = "(initialize_user_progress 1 \<lparr>date_ordinal = 739000, posix = Some 0\<rparr>
                         \<lparr>date_ordinal = 739000, posix = Some 0\<rparr>)\<lparr>overall_score := 150\<rparr>"
  have "progress_file ?S 1 = Some ?P" by simp
  then have st: "progress_file (update_progress ?S 1 ?t ?a 0 ?ti ?now) 1
      = Some (update_progress_record ?P ?t ?a 0 ?now)"
    by (rule update_progress_Some)
  have h: "?a \<notin> {''started'', ''completed'', ''quiz_completed''}" by simp
  show ?thesis
    unfolding st by (simp add: unknown_action_fields(1) [OF h])
qed

theorem unknown_action_only_touches_topics_witness:
  "''viewed'' \<notin> {''started'', ''completed'', ''quiz_completed''}
   \<and> (\<exists>q. progress_file
          (update_progress
             \<lparr>users_file = Map.empty, memories_file = Map.empty,
              progress_file =
                [1 \<mapsto> (initialize_user_progress 1 \<lparr>date_ordinal = 739000, posix = Some 0\<rparr>
                           \<lparr>date_ordinal = 739000, posix = Some 0\<rparr>)
                         \<lparr>overall_score := 85, learning_streak := 7\<rparr>],
              group_memories_file = Map.empty\<rparr>
             1 ''crypto_basics'' ''viewed'' 3
             (\<lparr>date_ordinal = 739001, posix = Some 86400\<rparr>,
              \<lparr>date_ordinal = 739001, posix = Some 86400\<rparr>)
             \<lparr>date_ordinal = 739001, posix = Some 86401\<rparr>) 1 = Some q
        \<and> overall_score q = 85 \<and> completed_modules q = [] \<and> current_modules q = []
        \<and> total_questions q = 0
        \<and> updated_at q = Iso \<lparr>date_ordinal = 739001, posix = Some 86401\<rparr>
        \<and> recent_topics q = [''crypto_basics'']
        \<and> set (achievements q) = {''Consistent Learner'', ''High Achiever''}
        \<and> skill_levels q ''crypto'' = Some ''advanced''
        \<and> skill_levels q ''stocks'' = Some ''advanced''
        \<and> skill_levels q ''trading'' = Some ''advanced'')"
  (is "?H1 \<and> (\<exists>q. progress_file (update_progress ?S 1 ?t ?a 3 ?ti ?now) 1 = Some q \<and> ?C q)")
proof -
  let ?P = "(initialize_user_progress 1 \<lparr>date_ordinal = 739000, posix = Some 0\<rparr>
                           \<lparr>date_ordinal = 739000, posix = Some 0\<rparr>)
                         \<lparr>overall_score := 85, learning_streak := 7\<rparr>"
  have h1: ?H1 by simp
  have "progress_file ?S 1 = Some ?P" by simp
  then have f: "fst (get_user_progress ?S 1 ?ti) = ?P"
    by (simp add: get_user_progress_stored)
  show ?thesis
    using unknown_action_only_touches_topics [OF h1, of ?S 1 ?t 3 ?ti ?now, unfolded f]
    apply (elim exE conjE)
    apply (rule conjI [OF h1])
    apply (rule_tac x = q in exI)
    apply (simp add: initialize_user_progress_def isoformat_def last_entries_def insert_commute)
    done
qed

subsection \<open>Purging\<close>












end
